theory Spec2Isabelle
  imports Complex_Main
begin

unbundle bit_operations_syntax

section \<open>JavaScript values used by the decoder\<close>

text \<open>
  An array read \<^verbatim>\<open>a[i]\<close> yields \<^verbatim>\<open>undefined\<close> outside the array; \<open>None\<close> stands for
  \<^verbatim>\<open>undefined\<close>.
\<close>

definition js_index :: "'a list \<Rightarrow> int \<Rightarrow> 'a option" where
  "js_index xs i = (if 0 \<le> i \<and> i < int (length xs) then Some (xs ! nat i) else None)"

text \<open>\<^verbatim>\<open>s.includes(c)\<close>, \<^verbatim>\<open>s.indexOf(c)\<close> (\<open>-1\<close> when absent) for a one-character needle.\<close>

definition js_includes :: "string \<Rightarrow> char \<Rightarrow> bool" where
  "js_includes s c = (c \<in> set s)"

fun js_indexOf :: "string \<Rightarrow> char \<Rightarrow> int" where
  "js_indexOf [] c = - 1"
| "js_indexOf (x # xs) c =
     (if x = c then 0 else (let r = js_indexOf xs c in if r < 0 then - 1 else r + 1))"

text \<open>
  \<^verbatim>\<open>s.substring(a, b)\<close>: both arguments are clamped to \<open>[0, length]\<close> and swapped when
  the first exceeds the second.
\<close>

definition js_substring :: "string \<Rightarrow> int \<Rightarrow> int \<Rightarrow> string" where
  "js_substring s a b =
     (let n = int (length s);
          a' = max 0 (min a n);
          b' = max 0 (min b n);
          lo = min a' b';
          hi = max a' b'
      in take (nat (hi - lo)) (drop (nat lo) s))"

text \<open>\<^verbatim>\<open>s.split(c)\<close> for a one-character separator; the empty string splits into \<open>[""]\<close>.\<close>

fun js_split :: "string \<Rightarrow> char \<Rightarrow> string list" where
  "js_split [] c = [[]]"
| "js_split (x # xs) c =
     (if x = c then [] # js_split xs c
      else (case js_split xs c of
              [] \<Rightarrow> [[x]]
            | w # ws \<Rightarrow> (x # w) # ws))"

text \<open>Decimal rendering of an integer inside a template literal.\<close>

fun nat_toString :: "nat \<Rightarrow> string" where
  "nat_toString n =
     (if n < 10 then [''0123456789'' ! n]
      else nat_toString (n div 10) @ [''0123456789'' ! (n mod 10)])"

declare nat_toString.simps [simp del]

definition js_toString :: "int \<Rightarrow> string" where
  "js_toString i = (if i < 0 then CHR ''-'' # nat_toString (nat (- i)) else nat_toString (nat i))"

section \<open>Block descriptors and the decoded tag tree\<close>

text \<open>
  A block object \<^verbatim>\<open>{ name, properties }\<close>; \<open>properties = None\<close> is an object whose
  \<^verbatim>\<open>properties\<close> is absent or \<^verbatim>\<open>undefined\<close>.
\<close>

record descriptor =
  name :: string
  properties :: "string list option"

type_synonym grid = "descriptor list list list"

text \<open>
  The fields of \<^verbatim>\<open>nbtData.value\<close> that the decoder reads, each with the \<^verbatim>\<open>value\<close> of its
  tag; \<open>None\<close> is a field that is absent. \<open>Palette\<close> lists the entries of the compound in
  the order of \<^verbatim>\<open>Object.entries\<close>.
\<close>

record nbt =
  Width :: "int option"
  Height :: "int option"
  Length :: "int option"
  Palette :: "(string \<times> int) list option"
  BlockData :: "int list option"
  Blocks :: "int list option"
  Data :: "int list option"

datatype error = Error string | TypeError

section \<open>Palette resolver (webschematics.js, getBlockData)\<close>

fun getBlockData :: "(string \<times> int) list \<Rightarrow> int option \<Rightarrow> descriptor" where
  "getBlockData [] blockId = \<lparr>name = ''minecraft:air'', properties = None\<rparr>"
| "getBlockData ((key, v) # palette) blockId =
     (if Some v = blockId then
        (if js_includes key CHR ''[''
         then \<lparr>name = js_substring key 0 (js_indexOf key CHR ''[''),
               properties = Some (js_split
                 (js_substring key (js_indexOf key CHR ''['' + 1) (js_indexOf key CHR '']''))
                 CHR '','')\<rparr>
         else \<lparr>name = key, properties = None\<rparr>)
      else getBlockData palette blockId)"

text \<open>
  \<open>getBlockData\<close> returns an object on every path, so the branch
  \<^verbatim>\<open>data === undefined\<close> of the palette builder is never taken.
\<close>

text \<open>renderer.js reads the property list of a block as \<^verbatim>\<open>block.properties || []\<close>.\<close>

definition block_properties :: "descriptor \<Rightarrow> string list" where
  "block_properties block = (case properties block of None \<Rightarrow> [] | Some ps \<Rightarrow> ps)"

section \<open>Grid builders\<close>

text \<open>
  The three builders share one loop nest,
  \<^verbatim>\<open>for y < height { blocks[y] = []; for x < width { blocks[y][x] = [];
     for z < length { blocks[y][x][z] = cell(x + z * width + y * width * length) } } }\<close>,
  and differ in the cell they store.
\<close>

definition voxelLoop :: "(int \<Rightarrow> 'a) \<Rightarrow> int \<Rightarrow> int \<Rightarrow> int \<Rightarrow> 'a list list list" where
  "voxelLoop cell width height len =
     map (\<lambda>y. map (\<lambda>x. map (\<lambda>z. cell (int x + int z * width + int y * width * len))
                          [0..<nat len])
                [0..<nat width])
         [0..<nat height]"

definition getBlocksFromSchem :: "nbt \<Rightarrow> error + grid" where
  "getBlocksFromSchem nbtData =
     (case (Width nbtData, Height nbtData, Length nbtData) of
        (Some width, Some height, Some len) \<Rightarrow>
          (case Palette nbtData of
             None \<Rightarrow> Inl (Error ''Invalid NBT structure: Palette field missing or invalid'')
           | Some palette \<Rightarrow>
               (case BlockData nbtData of
                  None \<Rightarrow> Inl (Error ''Invalid NBT structure: BlockData field missing or invalid'')
                | Some blockData \<Rightarrow>
                    Inr (voxelLoop (\<lambda>i. getBlockData palette (js_index blockData i))
                           width height len)))
      | _ \<Rightarrow> Inl TypeError)"

subsection \<open>Legacy variant with byte normalisation (getBlocksFromSchematic, second copy)\<close>

text \<open>
  The repository holds two copies of webschematics.js. The copy with the complete
  table normalises the stored byte before the lookup; its names carry no suffix here.
\<close>

definition createLegacyBlockMap :: "(int \<times> string) list" where
  "createLegacyBlockMap =
     [(0, ''minecraft:air''), (1, ''minecraft:stone''), (2, ''minecraft:grass_block''),
      (3, ''minecraft:dirt''), (4, ''minecraft:cobblestone''), (5, ''minecraft:oak_planks''),
      (6, ''minecraft:oak_sapling''), (7, ''minecraft:bedrock''), (8, ''minecraft:water''),
      (9, ''minecraft:water''), (10, ''minecraft:lava''), (11, ''minecraft:lava''),
      (12, ''minecraft:sand''), (13, ''minecraft:gravel''), (14, ''minecraft:gold_ore''),
      (15, ''minecraft:iron_ore''), (16, ''minecraft:coal_ore''), (17, ''minecraft:oak_log''),
      (18, ''minecraft:oak_leaves''), (19, ''minecraft:sponge''), (20, ''minecraft:glass''),
      (21, ''minecraft:lapis_ore''), (22, ''minecraft:lapis_block''),
      (23, ''minecraft:dispenser''), (24, ''minecraft:sandstone''),
      (25, ''minecraft:note_block''), (26, ''minecraft:red_bed''),
      (27, ''minecraft:powered_rail''), (28, ''minecraft:detector_rail''),
      (29, ''minecraft:sticky_piston''), (30, ''minecraft:cobweb''), (31, ''minecraft:grass''),
      (32, ''minecraft:dead_bush''), (33, ''minecraft:piston''),
      (34, ''minecraft:piston_head''), (35, ''minecraft:white_wool''),
      (37, ''minecraft:dandelion''), (38, ''minecraft:poppy''),
      (39, ''minecraft:brown_mushroom''), (40, ''minecraft:red_mushroom''),
      (41, ''minecraft:gold_block''), (42, ''minecraft:iron_block''),
      (43, ''minecraft:stone_slab''), (44, ''minecraft:stone_slab''),
      (45, ''minecraft:bricks''), (46, ''minecraft:tnt''), (47, ''minecraft:bookshelf''),
      (48, ''minecraft:mossy_cobblestone''), (49, ''minecraft:obsidian''),
      (50, ''minecraft:torch''), (51, ''minecraft:fire''), (52, ''minecraft:spawner''),
      (53, ''minecraft:oak_stairs''), (54, ''minecraft:chest''),
      (55, ''minecraft:redstone_wire''), (56, ''minecraft:diamond_ore''),
      (57, ''minecraft:diamond_block''), (58, ''minecraft:crafting_table''),
      (59, ''minecraft:wheat''), (60, ''minecraft:farmland''), (61, ''minecraft:furnace''),
      (62, ''minecraft:furnace''), (63, ''minecraft:oak_sign''), (64, ''minecraft:oak_door''),
      (65, ''minecraft:ladder''), (66, ''minecraft:rail''),
      (67, ''minecraft:cobblestone_stairs''), (68, ''minecraft:oak_wall_sign''),
      (69, ''minecraft:lever''), (70, ''minecraft:stone_pressure_plate''),
      (71, ''minecraft:iron_door''), (72, ''minecraft:oak_pressure_plate''),
      (73, ''minecraft:redstone_ore''), (74, ''minecraft:redstone_ore''),
      (75, ''minecraft:redstone_torch''), (76, ''minecraft:redstone_torch''),
      (77, ''minecraft:stone_button''), (78, ''minecraft:snow''), (79, ''minecraft:ice''),
      (80, ''minecraft:snow_block''), (81, ''minecraft:cactus''), (82, ''minecraft:clay''),
      (83, ''minecraft:sugar_cane''), (84, ''minecraft:jukebox''),
      (85, ''minecraft:oak_fence''), (86, ''minecraft:carved_pumpkin''),
      (87, ''minecraft:netherrack''), (88, ''minecraft:soul_sand''),
      (89, ''minecraft:glowstone''), (90, ''minecraft:nether_portal''),
      (91, ''minecraft:jack_o_lantern''), (92, ''minecraft:cake''),
      (93, ''minecraft:repeater''), (94, ''minecraft:repeater''),
      (95, ''minecraft:white_stained_glass''), (96, ''minecraft:oak_trapdoor''),
      (97, ''minecraft:infested_stone''), (98, ''minecraft:stone_bricks''),
      (99, ''minecraft:brown_mushroom_block''), (100, ''minecraft:red_mushroom_block''),
      (101, ''minecraft:iron_bars''), (102, ''minecraft:glass_pane''),
      (103, ''minecraft:melon''), (104, ''minecraft:pumpkin_stem''),
      (105, ''minecraft:melon_stem''), (106, ''minecraft:vine''),
      (107, ''minecraft:oak_fence_gate''), (108, ''minecraft:brick_stairs''),
      (109, ''minecraft:stone_brick_stairs''), (110, ''minecraft:mycelium''),
      (111, ''minecraft:lily_pad''), (112, ''minecraft:nether_bricks''),
      (113, ''minecraft:nether_brick_fence''), (114, ''minecraft:nether_brick_stairs''),
      (115, ''minecraft:nether_wart''), (116, ''minecraft:enchanting_table''),
      (117, ''minecraft:brewing_stand''), (118, ''minecraft:cauldron''),
      (119, ''minecraft:end_portal''), (120, ''minecraft:end_portal_frame''),
      (121, ''minecraft:end_stone''), (122, ''minecraft:dragon_egg''),
      (123, ''minecraft:redstone_lamp''), (124, ''minecraft:redstone_lamp''),
      (125, ''minecraft:oak_slab''), (126, ''minecraft:oak_slab''), (127, ''minecraft:cocoa''),
      (128, ''minecraft:sandstone_stairs''), (129, ''minecraft:emerald_ore''),
      (130, ''minecraft:ender_chest''), (131, ''minecraft:tripwire_hook''),
      (132, ''minecraft:tripwire''), (133, ''minecraft:emerald_block''),
      (134, ''minecraft:spruce_stairs''), (135, ''minecraft:birch_stairs''),
      (136, ''minecraft:jungle_stairs''), (137, ''minecraft:command_block''),
      (138, ''minecraft:beacon''), (139, ''minecraft:cobblestone_wall''),
      (140, ''minecraft:flower_pot''), (141, ''minecraft:carrots''),
      (142, ''minecraft:potatoes''), (143, ''minecraft:oak_button''),
      (144, ''minecraft:skeleton_skull''), (145, ''minecraft:anvil''),
      (146, ''minecraft:trapped_chest''), (147, ''minecraft:light_weighted_pressure_plate''),
      (148, ''minecraft:heavy_weighted_pressure_plate''), (149, ''minecraft:comparator''),
      (150, ''minecraft:comparator''), (151, ''minecraft:daylight_detector''),
      (152, ''minecraft:redstone_block''), (153, ''minecraft:quartz_ore''),
      (154, ''minecraft:hopper''), (155, ''minecraft:quartz_block''),
      (156, ''minecraft:quartz_stairs''), (157, ''minecraft:activator_rail''),
      (158, ''minecraft:dropper''), (159, ''minecraft:white_terracotta''),
      (160, ''minecraft:white_stained_glass_pane''), (161, ''minecraft:acacia_leaves''),
      (162, ''minecraft:acacia_log''), (163, ''minecraft:acacia_stairs''),
      (164, ''minecraft:dark_oak_stairs''), (165, ''minecraft:slime_block''),
      (166, ''minecraft:barrier''), (167, ''minecraft:iron_trapdoor''),
      (168, ''minecraft:prismarine''), (169, ''minecraft:sea_lantern''),
      (170, ''minecraft:hay_block''), (171, ''minecraft:white_carpet''),
      (172, ''minecraft:terracotta''), (173, ''minecraft:coal_block''),
      (174, ''minecraft:packed_ice''), (175, ''minecraft:sunflower''),
      (176, ''minecraft:white_banner''), (177, ''minecraft:white_wall_banner''),
      (178, ''minecraft:daylight_detector''), (179, ''minecraft:red_sandstone''),
      (180, ''minecraft:red_sandstone_stairs''), (181, ''minecraft:red_sandstone_slab''),
      (182, ''minecraft:red_sandstone_slab''), (183, ''minecraft:spruce_fence_gate''),
      (184, ''minecraft:birch_fence_gate''), (185, ''minecraft:jungle_fence_gate''),
      (186, ''minecraft:dark_oak_fence_gate''), (187, ''minecraft:acacia_fence_gate''),
      (188, ''minecraft:spruce_fence''), (189, ''minecraft:birch_fence''),
      (190, ''minecraft:jungle_fence''), (191, ''minecraft:dark_oak_fence''),
      (192, ''minecraft:acacia_fence''), (193, ''minecraft:spruce_door''),
      (194, ''minecraft:birch_door''), (195, ''minecraft:jungle_door''),
      (196, ''minecraft:acacia_door''), (197, ''minecraft:dark_oak_door''),
      (198, ''minecraft:end_rod''), (199, ''minecraft:chorus_plant''),
      (200, ''minecraft:chorus_flower''), (201, ''minecraft:purpur_block''),
      (202, ''minecraft:purpur_pillar''), (203, ''minecraft:purpur_stairs''),
      (204, ''minecraft:purpur_slab''), (205, ''minecraft:purpur_slab''),
      (206, ''minecraft:end_stone_bricks''), (207, ''minecraft:beetroots''),
      (208, ''minecraft:grass_path''), (209, ''minecraft:end_gateway''),
      (210, ''minecraft:repeating_command_block''), (211, ''minecraft:chain_command_block''),
      (212, ''minecraft:frosted_ice''), (213, ''minecraft:magma_block''),
      (214, ''minecraft:nether_wart_block''), (215, ''minecraft:red_nether_bricks''),
      (216, ''minecraft:bone_block''), (217, ''minecraft:structure_void''),
      (218, ''minecraft:observer''), (219, ''minecraft:white_shulker_box''),
      (220, ''minecraft:orange_shulker_box''), (221, ''minecraft:magenta_shulker_box''),
      (222, ''minecraft:light_blue_shulker_box''), (223, ''minecraft:yellow_shulker_box''),
      (224, ''minecraft:lime_shulker_box''), (225, ''minecraft:pink_shulker_box''),
      (226, ''minecraft:gray_shulker_box''), (227, ''minecraft:light_gray_shulker_box''),
      (228, ''minecraft:cyan_shulker_box''), (229, ''minecraft:purple_shulker_box''),
      (230, ''minecraft:blue_shulker_box''), (231, ''minecraft:brown_shulker_box''),
      (232, ''minecraft:green_shulker_box''), (233, ''minecraft:red_shulker_box''),
      (234, ''minecraft:black_shulker_box''), (235, ''minecraft:white_glazed_terracotta''),
      (236, ''minecraft:orange_glazed_terracotta''),
      (237, ''minecraft:magenta_glazed_terracotta''),
      (238, ''minecraft:light_blue_glazed_terracotta''),
      (239, ''minecraft:yellow_glazed_terracotta''),
      (240, ''minecraft:lime_glazed_terracotta''), (241, ''minecraft:pink_glazed_terracotta''),
      (242, ''minecraft:gray_glazed_terracotta''),
      (243, ''minecraft:light_gray_glazed_terracotta''),
      (244, ''minecraft:cyan_glazed_terracotta''),
      (245, ''minecraft:purple_glazed_terracotta''),
      (246, ''minecraft:blue_glazed_terracotta''),
      (247, ''minecraft:brown_glazed_terracotta''),
      (248, ''minecraft:green_glazed_terracotta''), (249, ''minecraft:red_glazed_terracotta''),
      (250, ''minecraft:black_glazed_terracotta''), (251, ''minecraft:concrete''),
      (252, ''minecraft:concrete_powder''), (253, ''minecraft:structure_block''),
      (254, ''minecraft:structure_block''), (255, ''minecraft:air'')]"

text \<open>
  The body of the innermost loop: the two array reads (\<open>legacyCell\<close>) and the block
  object made from what they return (\<open>legacyBlock\<close>); \<^verbatim>\<open>skippedBlocks\<close> only feeds
  \<^verbatim>\<open>console.warn\<close> and is left out. \<^verbatim>\<open>undefined < 0\<close> is false and
  \<^verbatim>\<open>undefined & 0xFF\<close> is \<open>0\<close>; \<^verbatim>\<open>undefined > 0\<close> is false.
\<close>

definition normalizeBlockId :: "int option \<Rightarrow> int" where
  "normalizeBlockId raw =
     (case raw of
        None \<Rightarrow> 0
      | Some blockId \<Rightarrow> (if blockId < 0 then blockId + 256 else blockId) AND 255)"

definition dataProperties :: "int option \<Rightarrow> string list option" where
  "dataProperties blockData =
     (case blockData of
        None \<Rightarrow> None
      | Some d \<Rightarrow> if d > 0 then Some [''data='' @ js_toString d] else None)"

definition legacyBlock :: "int option \<Rightarrow> int option \<Rightarrow> descriptor" where
  "legacyBlock raw blockData =
     (let blockId = normalizeBlockId raw;
          blockName = (case map_of createLegacyBlockMap blockId of
                         Some n \<Rightarrow> n
                       | None \<Rightarrow> ''minecraft:unknown_'' @ js_toString blockId)
      in \<lparr>name = blockName, properties = dataProperties blockData\<rparr>)"

definition legacyCell :: "int list \<Rightarrow> int list option \<Rightarrow> int \<Rightarrow> descriptor" where
  "legacyCell blocksArray dataArray index =
     legacyBlock (js_index blocksArray index)
       (case dataArray of Some d \<Rightarrow> js_index d index | None \<Rightarrow> Some 0)"

definition getBlocksFromSchematic :: "nbt \<Rightarrow> error + grid" where
  "getBlocksFromSchematic nbtData =
     (case (Width nbtData, Height nbtData, Length nbtData) of
        (Some width, Some height, Some len) \<Rightarrow>
          (case Blocks nbtData of
             None \<Rightarrow> Inl (Error ''Invalid NBT structure: Blocks field missing or invalid'')
           | Some blocksArray \<Rightarrow>
               Inr (voxelLoop (legacyCell blocksArray (Data nbtData)) width height len))
      | _ \<Rightarrow> Inl TypeError)"

subsection \<open>Legacy variant without normalisation (src/webschematics.js, getBlocksFromSchematic)\<close>

definition createLegacyBlockMap_src :: "(int \<times> string) list" where
  "createLegacyBlockMap_src =
     [(0, ''minecraft:air''), (1, ''minecraft:stone''), (2, ''minecraft:grass_block''),
      (3, ''minecraft:dirt''), (4, ''minecraft:cobblestone''), (5, ''minecraft:oak_planks''),
      (6, ''minecraft:oak_sapling''), (7, ''minecraft:bedrock''), (8, ''minecraft:water''),
      (9, ''minecraft:water''), (10, ''minecraft:lava''), (11, ''minecraft:lava''),
      (12, ''minecraft:sand''), (13, ''minecraft:gravel''), (14, ''minecraft:gold_ore''),
      (15, ''minecraft:iron_ore''), (16, ''minecraft:coal_ore''), (17, ''minecraft:oak_log''),
      (18, ''minecraft:oak_leaves''), (20, ''minecraft:glass''), (21, ''minecraft:lapis_ore''),
      (22, ''minecraft:lapis_block''), (24, ''minecraft:sandstone''),
      (35, ''minecraft:white_wool''), (41, ''minecraft:gold_block''),
      (42, ''minecraft:iron_block''), (43, ''minecraft:stone_slab''),
      (44, ''minecraft:stone_slab''), (45, ''minecraft:bricks''), (46, ''minecraft:tnt''),
      (47, ''minecraft:bookshelf''), (48, ''minecraft:mossy_cobblestone''),
      (49, ''minecraft:obsidian''), (50, ''minecraft:torch''), (51, ''minecraft:fire''),
      (52, ''minecraft:spawner''), (53, ''minecraft:oak_stairs''), (54, ''minecraft:chest''),
      (56, ''minecraft:diamond_ore''), (57, ''minecraft:diamond_block''),
      (58, ''minecraft:crafting_table''), (59, ''minecraft:wheat''),
      (60, ''minecraft:farmland''), (61, ''minecraft:furnace''), (64, ''minecraft:oak_door''),
      (65, ''minecraft:ladder''), (67, ''minecraft:cobblestone_stairs''),
      (71, ''minecraft:iron_door''), (73, ''minecraft:redstone_ore''),
      (78, ''minecraft:snow''), (79, ''minecraft:ice''), (80, ''minecraft:snow_block''),
      (81, ''minecraft:cactus''), (82, ''minecraft:clay''), (85, ''minecraft:oak_fence''),
      (89, ''minecraft:glowstone''), (95, ''minecraft:white_stained_glass''),
      (98, ''minecraft:stone_bricks''), (102, ''minecraft:glass_pane''),
      (103, ''minecraft:melon''), (126, ''minecraft:oak_slab'')]"

text \<open>
  Here the stored value indexes the table as it is; \<^verbatim>\<open>legacyBlockMap[undefined]\<close> is
  \<^verbatim>\<open>undefined\<close> and the template literal prints \<^verbatim>\<open>undefined\<close>.
\<close>

definition legacyBlock_src :: "int option \<Rightarrow> int option \<Rightarrow> descriptor" where
  "legacyBlock_src blockId blockData =
     (let blockName =
            (case blockId of
               None \<Rightarrow> ''minecraft:unknown_undefined''
             | Some b \<Rightarrow> (case map_of createLegacyBlockMap_src b of
                           Some n \<Rightarrow> n
                         | None \<Rightarrow> ''minecraft:unknown_'' @ js_toString b))
      in \<lparr>name = blockName, properties = dataProperties blockData\<rparr>)"

definition legacyCell_src :: "int list \<Rightarrow> int list option \<Rightarrow> int \<Rightarrow> descriptor" where
  "legacyCell_src blocksArray dataArray index =
     legacyBlock_src (js_index blocksArray index)
       (case dataArray of Some d \<Rightarrow> js_index d index | None \<Rightarrow> Some 0)"

definition getBlocksFromSchematic_src :: "nbt \<Rightarrow> error + grid" where
  "getBlocksFromSchematic_src nbtData =
     (case (Width nbtData, Height nbtData, Length nbtData) of
        (Some width, Some height, Some len) \<Rightarrow>
          (case Blocks nbtData of
             None \<Rightarrow> Inl (Error ''Invalid NBT structure: Blocks field missing or invalid'')
           | Some blocksArray \<Rightarrow>
               Inr (voxelLoop (legacyCell_src blocksArray (Data nbtData)) width height len))
      | _ \<Rightarrow> Inl TypeError)"

section \<open>Format detection (webschematics.js, renderSchematic)\<close>

text \<open>
  The value of \<^verbatim>\<open>blocks\<close> handed to \<^verbatim>\<open>render\<close>, or the error thrown before. The argument
  is the parsed tree (\<open>None\<close> when \<^verbatim>\<open>nbtData\<close> or \<^verbatim>\<open>nbtData.value\<close> is missing); each copy
  of the file calls its own legacy builder, given here as \<open>legacy\<close>.
\<close>

definition renderSchematic :: "(nbt \<Rightarrow> error + grid) \<Rightarrow> nbt option \<Rightarrow> error + grid" where
  "renderSchematic legacy parsed =
     (case parsed of
        None \<Rightarrow> Inl (Error ''Invalid NBT structure: missing value property'')
      | Some nbtData \<Rightarrow>
          if Width nbtData = None
          then Inl (Error ''Invalid NBT structure: Width field missing or invalid'')
          else if Height nbtData = None
          then Inl (Error ''Invalid NBT structure: Height field missing or invalid'')
          else if Length nbtData = None
          then Inl (Error ''Invalid NBT structure: Length field missing or invalid'')
          else
            (let hasPalette = (Palette nbtData \<noteq> None);
                 hasBlocks = (Blocks nbtData \<noteq> None)
             in if hasPalette then getBlocksFromSchem nbtData
                else if hasBlocks then legacy nbtData
                else Inl (Error
                  ''Unknown schematic format: missing both Palette/BlockData and Blocks fields'')))"


section \<open>Linear index and grid layout\<close>

text \<open>
  The linear index of the specification, \<open>index = x + z * width + y * width * length\<close>,
  on natural numbers.
\<close>

definition linearIndex :: "nat \<Rightarrow> nat \<Rightarrow> nat \<Rightarrow> nat \<Rightarrow> nat \<Rightarrow> nat" where
  "linearIndex w l x y z = x + z * w + y * w * l"

text \<open>The read of the optional parallel \<^verbatim>\<open>Data\<close> array at an index in range of the loop.\<close>

definition dataAt :: "int list option \<Rightarrow> nat \<Rightarrow> int option" where
  "dataAt dataArray i = (case dataArray of Some d \<Rightarrow> js_index d (int i) | None \<Rightarrow> Some 0)"

text \<open>
  A grid of height \<open>h\<close>, width \<open>w\<close> and length \<open>l\<close> holds the cells of a flat array in
  the order of the specification: it is dense, position \<open>(y, x, z)\<close> holds the cell of
  flat index \<open>linearIndex w l x y z\<close>, every flat index \<open>i\<close> is found back at
  \<open>(i div (w * l), i mod w, i div w mod l)\<close>, and reading the grid with \<open>y\<close> outermost,
  then \<open>x\<close>, then \<open>z\<close> visits the flat indices in that nesting.
\<close>

definition grid_in_flat_order ::
  "'a list list list \<Rightarrow> nat \<Rightarrow> nat \<Rightarrow> nat \<Rightarrow> (nat \<Rightarrow> 'a) \<Rightarrow> bool" where
  "grid_in_flat_order g w h l cellAt \<longleftrightarrow>
     length g = h \<and>
     (\<forall>y<h. length (g ! y) = w \<and>
        (\<forall>x<w. length (g ! y ! x) = l \<and>
           (\<forall>z<l. g ! y ! x ! z = cellAt (linearIndex w l x y z)))) \<and>
     (\<forall>i < w * h * l. g ! (i div (w * l)) ! (i mod w) ! (i div w mod l) = cellAt i) \<and>
     concat (concat g) =
       map (\<lambda>(y, x, z). cellAt (linearIndex w l x y z))
         (List.product [0..<h] (List.product [0..<w] [0..<l]))"

text \<open>The air block of the palette resolver, \<^verbatim>\<open>{ name: "minecraft:air" }\<close>.\<close>

definition air :: descriptor where
  "air = \<lparr>name = ''minecraft:air'', properties = None\<rparr>"

text \<open>A grid is dense: every row and column is present with its full extent.\<close>

definition dense_grid :: "'a list list list \<Rightarrow> nat \<Rightarrow> nat \<Rightarrow> nat \<Rightarrow> bool" where
  "dense_grid g w h l \<longleftrightarrow>
     length g = h \<and> (\<forall>y<h. length (g ! y) = w \<and> (\<forall>x<w. length (g ! y ! x) = l))"

text \<open>
  Every position of the grid whose linear index is \<open>n\<close> or more holds a block with
  property \<open>P\<close>.
\<close>

definition padded_beyond ::
  "'a list list list \<Rightarrow> nat \<Rightarrow> nat \<Rightarrow> nat \<Rightarrow> nat \<Rightarrow> ('a \<Rightarrow> bool) \<Rightarrow> bool" where
  "padded_beyond g w h l n P \<longleftrightarrow>
     (\<forall>y<h. \<forall>x<w. \<forall>z<l. n \<le> linearIndex w l x y z \<longrightarrow> P (g ! y ! x ! z))"

section \<open>Collecting the blocks to draw (renderer.js, render, step 1)\<close>

text \<open>
  The loop over \<^verbatim>\<open>blocks[y][x][z]\<close> skips a block named \<^verbatim>\<open>minecraft:air\<close> and otherwise
  pushes \<^verbatim>\<open>{ x, y, z }\<close> onto the positions of the block's type and records the block in
  \<^verbatim>\<open>blockGrid\<close> under the key \<^verbatim>\<open>"x,y,z"\<close>. \<open>blockGrid\<close> lists these records in the order
  of the loop, the key as the triple it is printed from.
\<close>

definition blockGrid :: "grid \<Rightarrow> ((nat \<times> nat \<times> nat) \<times> descriptor) list" where
  "blockGrid blocks =
     concat (map (\<lambda>y.
       concat (map (\<lambda>x.
         concat (map (\<lambda>z.
           (let block = blocks ! y ! x ! z
            in if name block = ''minecraft:air'' then [] else [((x, y, z), block)]))
           [0..<length (blocks ! y ! x)]))
         [0..<length (blocks ! y)]))
       [0..<length blocks])"

section \<open>Byte normalisation and key syntax as the specification words them\<close>

text \<open>
  The remainder operator \<^verbatim>\<open>%\<close> of the specification's formula truncates towards zero:
  the result has the sign of the dividend.
\<close>

definition js_rem :: "int \<Rightarrow> int \<Rightarrow> int" where
  "js_rem a b = sgn a * (\<bar>a\<bar> mod \<bar>b\<bar>)"

text \<open>The specification's normalisation \<open>((raw % 256) + 256) % 256\<close>.\<close>

definition spec_normalize :: "int \<Rightarrow> int" where
  "spec_normalize raw = js_rem (js_rem raw 256 + 256) 256"

text \<open>
  The contents of a bracketed state suffix, \<open>prop1,prop2,...\<close>: the properties joined
  by the separator.
\<close>

fun js_join :: "string list \<Rightarrow> char \<Rightarrow> string" where
  "js_join [] c = []"
| "js_join [p] c = p"
| "js_join (p # q # ps) c = p @ c # js_join (q # ps) c"

section \<open>Geometries and meshes (renderer.js)\<close>

text \<open>
  A \<^verbatim>\<open>BufferGeometry\<close> with the attributes the renderer reads. An attribute is the list of
  its items, a \<open>position\<close> or \<open>normal\<close> item being \<open>(getX i, getY i, getZ i)\<close> and a \<open>uv\<close>
  item \<open>(getX i, getY i)\<close>; its \<^verbatim>\<open>count\<close> is the length of the list. \<open>None\<close> is an attribute
  or an index that is absent. Coordinates are real numbers, the values that the numbers
  of the buffers denote; \<^verbatim>\<open>Math.PI\<close> is \<open>pi\<close>. Copying an item from one buffer into another
  leaves it as it is. Where a computed sum is stored into a \<^verbatim>\<open>Float32\<close> buffer, the value
  the buffer then holds is given by a function \<open>toFloat32\<close> of the exact sum, which the
  definitions take as a parameter.
\<close>

type_synonym vec3 = "real \<times> real \<times> real"

record geometry =
  attr_position :: "vec3 list option"
  attr_normal :: "vec3 list option"
  attr_uv :: "(real \<times> real) list option"
  index :: "nat list option"

text \<open>
  A \<^verbatim>\<open>Mesh\<close>: its geometry (\<open>None\<close> when the field is \<^verbatim>\<open>null\<close> or \<^verbatim>\<open>undefined\<close>, on which
  \<^verbatim>\<open>mesh.geometry.clone()\<close> throws), its material, and the Euler angles and position of the
  object. The constructor replaces a missing geometry by an empty one and starts at
  the origin, unrotated.
\<close>

record 'm mesh =
  geometry :: "geometry option"
  material :: 'm
  position :: vec3
  rotation :: vec3

definition BufferGeometry :: geometry where
  "BufferGeometry =
     \<lparr>attr_position = None, attr_normal = None, attr_uv = None, index = None\<rparr>"

definition Mesh :: "geometry option \<Rightarrow> 'm \<Rightarrow> 'm mesh" where
  "Mesh geo mat =
     \<lparr>geometry = Some (case geo of None \<Rightarrow> BufferGeometry | Some g \<Rightarrow> g),
      material = mat, position = (0, 0, 0), rotation = (0, 0, 0)\<rparr>"

subsection \<open>mergeTwoGeometries\<close>

text \<open>
  \<^verbatim>\<open>if (attr) for (i < attr.count) array.push(attr.getX(i), ...)\<close>: the items of an attribute
  that is present are appended one by one.
\<close>

definition pushItems :: "'a list \<Rightarrow> 'a list option \<Rightarrow> 'a list" where
  "pushItems acc attr =
     (case attr of
        None \<Rightarrow> acc
      | Some a \<Rightarrow> acc @ map (\<lambda>i. a ! i) [0..<length a])"

text \<open>
  The arguments are \<open>None\<close> when they are not geometry objects; reading \<^verbatim>\<open>.attributes\<close>
  then throws inside the \<^verbatim>\<open>try\<close>, and the \<^verbatim>\<open>catch\<close> returns \<^verbatim>\<open>geo1\<close>. On two geometry
  objects no step of the \<^verbatim>\<open>try\<close> block throws.
\<close>

definition mergeTwoGeometries :: "geometry option \<Rightarrow> geometry option \<Rightarrow> geometry option" where
  "mergeTwoGeometries geo1 geo2 =
     (case (geo1, geo2) of
        (Some g1, Some g2) \<Rightarrow>
          (let pos1 = attr_position g1; pos2 = attr_position g2;
               norm1 = attr_normal g1; norm2 = attr_normal g2;
               uv1 = attr_uv g1; uv2 = attr_uv g2;
               positions = pushItems (pushItems [] pos1) pos2;
               normals = pushItems (pushItems [] norm1) norm2;
               uvs = pushItems (pushItems [] uv1) uv2;
               offset = (case pos1 of Some p \<Rightarrow> length p | None \<Rightarrow> 0)
           in Some
             \<lparr>attr_position = Some positions,
              attr_normal = (if length normals > 0 then Some normals else None),
              attr_uv = (if length uvs > 0 then Some uvs else None),
              index =
                (case (index g1, index g2) of
                   (Some index1, Some index2) \<Rightarrow>
                     Some (map (\<lambda>i. index1 ! i) [0..<length index1] @
                           map (\<lambda>i. index2 ! i + offset) [0..<length index2])
                 | (Some index1, None) \<Rightarrow> Some index1
                 | (None, Some index2) \<Rightarrow>
                     Some (map (\<lambda>i. index2 ! i + offset) [0..<length index2])
                 | (None, None) \<Rightarrow> None)\<rparr>)
      | _ \<Rightarrow> geo1)"

subsection \<open>translateGeometry and mergeGeometries\<close>

text \<open>
  Every coordinate of a position item is replaced by the stored sum
  \<^verbatim>\<open>pos.getX(i) + x\<close> (and likewise for \<open>y\<close> and \<open>z\<close>).
\<close>

definition translateGeometry ::
  "(real \<Rightarrow> real) \<Rightarrow> geometry \<Rightarrow> real \<Rightarrow> real \<Rightarrow> real \<Rightarrow> geometry" where
  "translateGeometry toFloat32 geo x y z =
     (case attr_position geo of
        None \<Rightarrow> geo
      | Some pos \<Rightarrow>
          geo\<lparr>attr_position :=
                Some (map (\<lambda>i. case pos ! i of (px, py, pz) \<Rightarrow>
                             (toFloat32 (px + x), toFloat32 (py + y), toFloat32 (pz + z)))
                        [0..<length pos])\<rparr>)"

text \<open>
  \<^verbatim>\<open>translateGeometry(mesh.geometry.clone(), mesh.position.x, mesh.position.y,
  mesh.position.z)\<close>, which throws a \<^verbatim>\<open>TypeError\<close> on a mesh without geometry.
\<close>

definition translateMesh :: "(real \<Rightarrow> real) \<Rightarrow> 'm mesh \<Rightarrow> error + geometry" where
  "translateMesh toFloat32 m =
     (case geometry m of
        None \<Rightarrow> Inl TypeError
      | Some g \<Rightarrow>
          (case position m of (x, y, z) \<Rightarrow> Inr (translateGeometry toFloat32 g x y z)))"



subsection \<open>The merged branch of render\<close>



subsection \<open>applyTransformations\<close>

definition js_startsWith :: "string \<Rightarrow> string \<Rightarrow> bool" where
  "js_startsWith s p = (take (length p) s = p)"

definition applyTransformations ::
  "'m mesh \<Rightarrow> real \<Rightarrow> real \<Rightarrow> real \<Rightarrow> string list option \<Rightarrow> 'm mesh" where
  "applyTransformations mesh0 x y z properties0 =
     (let mesh1 = mesh0\<lparr>position := (x, y, z)\<rparr>
      in case properties0 of
           None \<Rightarrow> mesh1
         | Some props \<Rightarrow>
             if length props = 0 then mesh1
             else
               (let half = find (\<lambda>property. js_startsWith property ''half='') props;
                    upsideDown = (case half of None \<Rightarrow> False | Some h \<Rightarrow> drop 5 h = ''top'');
                    mesh2 = (if upsideDown
                             then (case rotation mesh1 of (rx, ry, rz) \<Rightarrow>
                                     mesh1\<lparr>rotation := (pi, ry, rz)\<rparr>)
                             else mesh1);
                    facing = find (\<lambda>property. js_startsWith property ''facing='') props;
                    mesh3 =
                      (case facing of
                         None \<Rightarrow> mesh2
                       | Some f \<Rightarrow>
                           (let direction = drop 7 f;
                                turn = (\<lambda>a. case rotation mesh2 of (rx, ry, rz) \<Rightarrow>
                                          mesh2\<lparr>rotation := (rx, ry + a, rz)\<rparr>)
                            in if direction = ''north''
                               then turn (if upsideDown then - pi / 2 else pi / 2)
                               else if direction = ''east'' then turn 0
                               else if direction = ''south''
                               then turn (if upsideDown then pi / 2 else - pi / 2)
                               else if direction = ''west''
                               then turn (if upsideDown then - pi else pi)
                               else mesh2));
                    type_prop = find (\<lambda>property. js_startsWith property ''type='') props;
                    mesh4 =
                      (case type_prop of
                         None \<Rightarrow> mesh3
                       | Some t \<Rightarrow>
                           if drop 5 t = ''top''
                           then (case position mesh3 of (px, py, pz) \<Rightarrow>
                                   mesh3\<lparr>position := (px, py + 0.5, pz)\<rparr>)
                           else mesh3);
                    axis = find (\<lambda>property. js_startsWith property ''axis='') props
                in case axis of
                     None \<Rightarrow> mesh4
                   | Some a \<Rightarrow>
                       (let direction = drop 5 a
                        in case rotation mesh4 of (rx, ry, rz) \<Rightarrow>
                             if direction = ''x'' then mesh4\<lparr>rotation := (rx, ry, pi / 2)\<rparr>
                             else if direction = ''y'' then mesh4\<lparr>rotation := (rx, 0, rz)\<rparr>
                             else if direction = ''z'' then mesh4\<lparr>rotation := (pi / 2, ry, rz)\<rparr>
                             else mesh4)))"

section \<open>Notions used to state the geometry and transform properties\<close>

text \<open>The items of an attribute or index, none when it is absent, and the vertex count.\<close>

definition items :: "'a list option \<Rightarrow> 'a list" where
  "items attr = (case attr of None \<Rightarrow> [] | Some a \<Rightarrow> a)"

definition vertexCount :: "geometry \<Rightarrow> nat" where
  "vertexCount g = length (items (attr_position g))"

text \<open>A single triangle with indices \<open>[0, 1, 2]\<close>, and the same triangle without an index.\<close>

definition triangle :: geometry where
  "triangle = \<lparr>attr_position = Some [(0, 0, 0), (1, 0, 0), (0, 1, 0)], attr_normal = None,
               attr_uv = None, index = Some [0, 1, 2]\<rparr>"

definition plainTriangle :: geometry where
  "plainTriangle = \<lparr>attr_position = Some [(0, 0, 0), (1, 0, 0), (0, 1, 0)], attr_normal = None,
                    attr_uv = None, index = None\<rparr>"



text \<open>
  The block is upside down (\<open>half=top\<close>); the angle of a facing direction; the rotation
  about the vertical axis that \<open>facing\<close> asks for, negated for an upside-down block.
\<close>

definition upsideDown :: "string list \<Rightarrow> bool" where
  "upsideDown props =
     (case find (\<lambda>p. js_startsWith p ''half='') props of
        None \<Rightarrow> False
      | Some h \<Rightarrow> drop 5 h = ''top'')"

definition facingAngle :: "string \<Rightarrow> real" where
  "facingAngle direction =
     (if direction = ''north'' then pi / 2
      else if direction = ''east'' then 0
      else if direction = ''south'' then - pi / 2
      else if direction = ''west'' then pi
      else 0)"

definition verticalRotation :: "string list \<Rightarrow> real" where
  "verticalRotation props =
     (case find (\<lambda>p. js_startsWith p ''facing='') props of
        None \<Rightarrow> 0
      | Some f \<Rightarrow> if upsideDown props then - facingAngle (drop 7 f) else facingAngle (drop 7 f))"

section \<open>Properties of the linear index\<close>

lemma linearIndex_less:
  assumes "x < w" "y < h" "z < l"
  shows "linearIndex w l x y z < w * h * l"
proof -
  have "x + z * w < w * l"
  proof -
    have "x + z * w < w + z * w" using assms by simp
    also have "\<dots> = (Suc z) * w" by simp
    also have "\<dots> \<le> l * w" using assms by (intro mult_le_mono1) simp
    finally show ?thesis by (simp add: mult.commute)
  qed
  then have "x + z * w + y * (w * l) < w * l + y * (w * l)" by simp
  also have "\<dots> = Suc y * (w * l)" by simp
  also have "\<dots> \<le> h * (w * l)" using assms by (intro mult_le_mono1) simp
  finally show ?thesis by (simp add: linearIndex_def mult_ac)
qed

lemma linearIndex_inverse:
  "linearIndex w l (i mod w) (i div (w * l)) (i div w mod l) = i"
proof -
  have "i div (w * l) = i div w div l" by (simp add: div_mult2_eq)
  then have "i div w mod l + i div (w * l) * l = i div w" by simp
  then have "(i div w mod l + i div (w * l) * l) * w = (i div w) * w" by (rule arg_cong)
  then have "(i div w mod l) * w + i div (w * l) * w * l = (i div w) * w"
    by (simp add: algebra_simps)
  moreover have "i mod w + (i div w) * w = i" by simp
  ultimately show ?thesis unfolding linearIndex_def by linarith
qed

lemma inverse_coords_less:
  assumes "i < w * h * l"
  shows "i mod w < (w::nat) \<and> i div (w * l) < h \<and> i div w mod l < l"
proof -
  from assms have w: "0 < w" and l: "0 < l" by (auto intro: gr0I)
  have "i < h * (w * l)" using assms by (simp add: mult_ac)
  then have "i div (w * l) < h" using w l by (simp add: less_mult_imp_div_less)
  then show ?thesis using w l by simp
qed

section \<open>The grid builders store the flat array in linear-index order\<close>

lemma voxelLoop_nth:
  assumes "x < nat w" "y < nat h" "z < nat l"
  shows "voxelLoop cell w h l ! y ! x ! z = cell (int (linearIndex (nat w) (nat l) x y z))"
proof -
  from assms have "0 \<le> w" "0 \<le> l" by auto
  then show ?thesis using assms by (simp add: voxelLoop_def linearIndex_def)
qed

lemma voxelLoop_length:
  "length (voxelLoop cell w h l) = nat h"
  "y < nat h \<Longrightarrow> length (voxelLoop cell w h l ! y) = nat w"
  "y < nat h \<Longrightarrow> x < nat w \<Longrightarrow> length (voxelLoop cell w h l ! y ! x) = nat l"
  by (simp_all add: voxelLoop_def)

lemma concat_concat_map: "concat (concat xss) = concat (map concat xss)"
  by (induction xss) simp_all

lemma voxelLoop_concat:
  "concat (concat (voxelLoop cell w h l)) =
     map (\<lambda>(y, x, z). cell (int x + int z * w + int y * w * l))
       (List.product [0..<nat h] (List.product [0..<nat w] [0..<nat l]))"
  unfolding voxelLoop_def List.product_concat_map
  by (simp add: map_concat comp_def concat_concat_map)

lemma voxelLoop_flat_order:
  assumes "0 \<le> w" "0 \<le> l"
    and cell: "\<And>i. i < nat w * nat h * nat l \<Longrightarrow> cell (int i) = cellAt i"
  shows "grid_in_flat_order (voxelLoop cell w h l) (nat w) (nat h) (nat l) cellAt"
proof -
  let ?g = "voxelLoop cell w h l"
  have nth: "?g ! y ! x ! z = cellAt (linearIndex (nat w) (nat l) x y z)"
    if "x < nat w" "y < nat h" "z < nat l" for x y z
    using that by (simp add: voxelLoop_nth cell linearIndex_less)
  have inv: "?g ! (i div (nat w * nat l)) ! (i mod nat w) ! (i div nat w mod nat l) = cellAt i"
    if "i < nat w * nat h * nat l" for i
    using inverse_coords_less [OF that] by (simp add: nth linearIndex_inverse)
  have "concat (concat ?g) =
     map (\<lambda>(y, x, z). cell (int (linearIndex (nat w) (nat l) x y z)))
       (List.product [0..<nat h] (List.product [0..<nat w] [0..<nat l]))"
    using assms(1,2) by (simp add: voxelLoop_concat linearIndex_def)
  also have "\<dots> = map (\<lambda>(y, x, z). cellAt (linearIndex (nat w) (nat l) x y z))
       (List.product [0..<nat h] (List.product [0..<nat w] [0..<nat l]))"
    by (rule map_cong) (auto simp: cell linearIndex_less)
  finally show ?thesis
    unfolding grid_in_flat_order_def using nth inv by (simp add: voxelLoop_length)
qed

lemma js_index_in_range: "i < length xs \<Longrightarrow> js_index xs (int i) = Some (xs ! i)"
  by (simp add: js_index_def)

text \<open>
  Claim C1. For positive dimensions \<open>(w, h, l)\<close> and a flat block-id array of length
  \<open>w * h * l\<close>, each of the three builders (the palette variant and both copies of the
  legacy variant) returns a grid that runs over \<open>y\<close> outermost, \<open>x\<close> in the middle and
  \<open>z\<close> innermost and holds at position \<open>(y, x, z)\<close> the descriptor resolved from flat
  index \<open>x + z * w + y * w * l\<close>; inverting the linear index recovers the flat array
  order.
\<close>

theorem grid_builders_store_flat_order:
  assumes dims: "0 < w" "0 < h" "0 < l"
    and fields: "Width nbtData = Some w" "Height nbtData = Some h" "Length nbtData = Some l"
    and len: "length flat = nat (w * h * l)"
  shows "(Palette nbtData = Some palette \<and> BlockData nbtData = Some flat \<longrightarrow>
           (\<exists>g. getBlocksFromSchem nbtData = Inr g \<and>
                grid_in_flat_order g (nat w) (nat h) (nat l)
                  (\<lambda>i. getBlockData palette (Some (flat ! i))))) \<and>
         (Blocks nbtData = Some flat \<longrightarrow>
           (\<exists>g. getBlocksFromSchematic nbtData = Inr g \<and>
                grid_in_flat_order g (nat w) (nat h) (nat l)
                  (\<lambda>i. legacyBlock (Some (flat ! i)) (dataAt (Data nbtData) i))) \<and>
           (\<exists>g. getBlocksFromSchematic_src nbtData = Inr g \<and>
                grid_in_flat_order g (nat w) (nat h) (nat l)
                  (\<lambda>i. legacyBlock_src (Some (flat ! i)) (dataAt (Data nbtData) i))))"
proof -
  have n: "nat w * nat h * nat l = length flat"
    using dims len by (simp add: nat_mult_distrib)
  have w: "0 \<le> w" and l: "0 \<le> l" using dims by simp_all
  have schem: "grid_in_flat_order
      (voxelLoop (\<lambda>i. getBlockData palette (js_index flat i)) w h l)
      (nat w) (nat h) (nat l) (\<lambda>i. getBlockData palette (Some (flat ! i)))"
    by (rule voxelLoop_flat_order [OF w l]) (simp add: n js_index_in_range)
  have legacy: "grid_in_flat_order (voxelLoop (legacyCell flat (Data nbtData)) w h l)
      (nat w) (nat h) (nat l) (\<lambda>i. legacyBlock (Some (flat ! i)) (dataAt (Data nbtData) i))"
    by (rule voxelLoop_flat_order [OF w l])
      (simp add: n js_index_in_range legacyCell_def dataAt_def)
  have legacy_src: "grid_in_flat_order (voxelLoop (legacyCell_src flat (Data nbtData)) w h l)
      (nat w) (nat h) (nat l)
      (\<lambda>i. legacyBlock_src (Some (flat ! i)) (dataAt (Data nbtData) i))"
    by (rule voxelLoop_flat_order [OF w l])
      (simp add: n js_index_in_range legacyCell_src_def dataAt_def)
  show ?thesis
    using schem legacy legacy_src
    by (simp add: getBlocksFromSchem_def getBlocksFromSchematic_def
        getBlocksFromSchematic_src_def fields)
qed

theorem grid_builders_store_flat_order_witness:
  "(\<exists>g. getBlocksFromSchem
          \<lparr>Width = Some 2, Height = Some 1, Length = Some 2,
           Palette = Some [(''minecraft:air'', 0), (''minecraft:stone'', 1)],
           BlockData = Some [1, 0, 0, 1], Blocks = Some [1, 0, 0, 1], Data = None\<rparr> = Inr g \<and>
        grid_in_flat_order g 2 1 2
          (\<lambda>i. getBlockData [(''minecraft:air'', 0), (''minecraft:stone'', 1)]
                 (Some ([1, 0, 0, 1] ! i)))) \<and>
   (\<exists>g. getBlocksFromSchematic
          \<lparr>Width = Some 2, Height = Some 1, Length = Some 2,
           Palette = Some [(''minecraft:air'', 0), (''minecraft:stone'', 1)],
           BlockData = Some [1, 0, 0, 1], Blocks = Some [1, 0, 0, 1], Data = None\<rparr> = Inr g \<and>
        grid_in_flat_order g 2 1 2
          (\<lambda>i. legacyBlock (Some ([1, 0, 0, 1] ! i)) (dataAt None i)))"
  using grid_builders_store_flat_order [of 2 1 2
      "\<lparr>Width = Some 2, Height = Some 1, Length = Some 2,
        Palette = Some [(''minecraft:air'', 0), (''minecraft:stone'', 1)],
        BlockData = Some [1, 0, 0, 1], Blocks = Some [1, 0, 0, 1], Data = None\<rparr>"
      "[1, 0, 0, 1]" "[(''minecraft:air'', 0), (''minecraft:stone'', 1)]"]
  by simp

section \<open>Format detection\<close>

text \<open>
  Claim C2, as it is stated, fails: a tree with a \<^verbatim>\<open>Palette\<close> field, no \<^verbatim>\<open>BlockData\<close>
  field and a \<^verbatim>\<open>Blocks\<close> field is sent to the palette builder, which throws the
  missing-\<^verbatim>\<open>BlockData\<close> error, although the legacy builder decodes the same tree.
\<close>

theorem palette_without_blockdata_counterexample:
  "renderSchematic getBlocksFromSchematic
     (Some \<lparr>Width = Some 1, Height = Some 1, Length = Some 1,
            Palette = Some [(''minecraft:stone'', 0)], BlockData = None,
            Blocks = Some [1], Data = None\<rparr>) =
     Inl (Error ''Invalid NBT structure: BlockData field missing or invalid'') \<and>
   getBlocksFromSchematic
     \<lparr>Width = Some 1, Height = Some 1, Length = Some 1,
      Palette = Some [(''minecraft:stone'', 0)], BlockData = None,
      Blocks = Some [1], Data = None\<rparr> =
     Inr [[[\<lparr>name = ''minecraft:stone'', properties = None\<rparr>]]]"
  by (simp add: renderSchematic_def getBlocksFromSchem_def getBlocksFromSchematic_def
      voxelLoop_def legacyCell_def legacyBlock_def js_index_def normalizeBlockId_def
      dataProperties_def createLegacyBlockMap_def)

text \<open>
  Claim C2, amended. With the three dimensions present, detection selects the palette
  builder exactly when a \<^verbatim>\<open>Palette\<close> field is present, and that builder fails with the
  missing-\<^verbatim>\<open>BlockData\<close> error when \<^verbatim>\<open>BlockData\<close> is absent, whether or not \<^verbatim>\<open>Blocks\<close> is
  present; without \<^verbatim>\<open>Palette\<close> it selects the legacy builder exactly when \<^verbatim>\<open>Blocks\<close> is
  present, and otherwise fails with the unknown-format error.
\<close>

theorem detection_keys_on_palette:
  assumes "Width t = Some w" "Height t = Some h" "Length t = Some l"
  shows "(Palette t \<noteq> None \<longrightarrow> renderSchematic legacy (Some t) = getBlocksFromSchem t) \<and>
         (Palette t \<noteq> None \<and> BlockData t = None \<longrightarrow>
            renderSchematic legacy (Some t) =
              Inl (Error ''Invalid NBT structure: BlockData field missing or invalid'')) \<and>
         (Palette t = None \<and> Blocks t \<noteq> None \<longrightarrow> renderSchematic legacy (Some t) = legacy t) \<and>
         (Palette t = None \<and> Blocks t = None \<longrightarrow>
            renderSchematic legacy (Some t) = Inl (Error
              ''Unknown schematic format: missing both Palette/BlockData and Blocks fields''))"
  using assms by (auto simp: renderSchematic_def getBlocksFromSchem_def)

theorem detection_keys_on_palette_witness:
  "renderSchematic getBlocksFromSchematic
     (Some \<lparr>Width = Some 1, Height = Some 1, Length = Some 1,
            Palette = Some [(''minecraft:stone'', 0)], BlockData = None,
            Blocks = Some [1], Data = None\<rparr>) =
     Inl (Error ''Invalid NBT structure: BlockData field missing or invalid'') \<and>
   renderSchematic getBlocksFromSchematic
     (Some \<lparr>Width = Some 1, Height = Some 1, Length = Some 1,
            Palette = None, BlockData = None, Blocks = None, Data = None\<rparr>) =
     Inl (Error ''Unknown schematic format: missing both Palette/BlockData and Blocks fields'')"
  using detection_keys_on_palette [of
      "\<lparr>Width = Some 1, Height = Some 1, Length = Some 1,
        Palette = Some [(''minecraft:stone'', 0)], BlockData = None,
        Blocks = Some [1], Data = None\<rparr>" 1 1 1 getBlocksFromSchematic]
    detection_keys_on_palette [of
      "\<lparr>Width = Some 1, Height = Some 1, Length = Some 1,
        Palette = None, BlockData = None, Blocks = None, Data = None\<rparr>" 1 1 1
      getBlocksFromSchematic]
  by (simp add: getBlocksFromSchem_def)

section \<open>A flat array that is too short\<close>

lemma getBlockData_unmatched:
  "\<forall>(key, v) \<in> set palette. Some v \<noteq> blockId \<Longrightarrow> getBlockData palette blockId = air"
  by (induction palette) (auto simp: air_def)

lemma getBlockData_undefined: "getBlockData palette None = air"
  by (rule getBlockData_unmatched) simp

lemma voxelLoop_dense: "dense_grid (voxelLoop cell w h l) (nat w) (nat h) (nat l)"
  by (simp add: dense_grid_def voxelLoop_length)

lemma js_index_beyond: "length xs \<le> i \<Longrightarrow> js_index xs (int i) = None"
  by (simp add: js_index_def)

lemma legacyBlock_undefined: "name (legacyBlock None d) = ''minecraft:air''"
  by (simp add: legacyBlock_def normalizeBlockId_def createLegacyBlockMap_def)

text \<open>
  Claim C3, as it is stated, fails: with dimensions \<open>2 \<times> 1 \<times> 1\<close> and a flat array of one
  element both builders return a full grid, the missing cell read as air.
\<close>

theorem short_flat_array_counterexample:
  "getBlocksFromSchem
     \<lparr>Width = Some 2, Height = Some 1, Length = Some 1,
      Palette = Some [(''minecraft:air'', 0), (''minecraft:stone'', 1)], BlockData = Some [1],
      Blocks = None, Data = None\<rparr> =
     Inr [[[\<lparr>name = ''minecraft:stone'', properties = None\<rparr>],
           [\<lparr>name = ''minecraft:air'', properties = None\<rparr>]]] \<and>
   getBlocksFromSchematic
     \<lparr>Width = Some 2, Height = Some 1, Length = Some 1,
      Palette = None, BlockData = None,
      Blocks = Some [1], Data = None\<rparr> =
     Inr [[[\<lparr>name = ''minecraft:stone'', properties = None\<rparr>],
           [\<lparr>name = ''minecraft:air'', properties = None\<rparr>]]]"
  by code_simp

text \<open>
  Claim C3, amended. Whatever the length of the flat array (in particular when it is
  shorter than \<open>width * height * length\<close>), grid building does not fail once the fields
  are present: the palette builder and the normalising legacy builder return a dense
  grid of the stated dimensions, and every cell whose linear index lies past the end of
  the array holds the air descriptor (palette variant) or a block named
  \<^verbatim>\<open>minecraft:air\<close> (legacy variant).
\<close>

theorem short_flat_array_is_padded:
  assumes fields: "Width t = Some w" "Height t = Some h" "Length t = Some l"
  shows "(Palette t = Some palette \<and> BlockData t = Some flat \<longrightarrow>
            (\<exists>g. getBlocksFromSchem t = Inr g \<and> dense_grid g (nat w) (nat h) (nat l) \<and>
                 padded_beyond g (nat w) (nat h) (nat l) (length flat) (\<lambda>b. b = air))) \<and>
         (Blocks t = Some flat \<longrightarrow>
            (\<exists>g. getBlocksFromSchematic t = Inr g \<and> dense_grid g (nat w) (nat h) (nat l) \<and>
                 padded_beyond g (nat w) (nat h) (nat l) (length flat)
                   (\<lambda>b. name b = ''minecraft:air'')))"
proof -
  have "padded_beyond (voxelLoop (\<lambda>i. getBlockData palette (js_index flat i)) w h l)
          (nat w) (nat h) (nat l) (length flat) (\<lambda>b. b = air)"
    by (simp add: padded_beyond_def voxelLoop_nth js_index_beyond getBlockData_undefined)
  moreover have "padded_beyond (voxelLoop (legacyCell flat (Data t)) w h l)
          (nat w) (nat h) (nat l) (length flat) (\<lambda>b. name b = ''minecraft:air'')"
    by (simp add: padded_beyond_def voxelLoop_nth legacyCell_def js_index_beyond
        legacyBlock_undefined)
  ultimately show ?thesis
    by (simp add: getBlocksFromSchem_def getBlocksFromSchematic_def fields voxelLoop_dense)
qed

theorem short_flat_array_is_padded_witness:
  "(\<exists>g. getBlocksFromSchem
          \<lparr>Width = Some 2, Height = Some 1, Length = Some 1,
           Palette = Some [(''minecraft:air'', 0), (''minecraft:stone'', 1)],
           BlockData = Some [1], Blocks = Some [1], Data = None\<rparr> = Inr g \<and>
        dense_grid g 2 1 1 \<and> padded_beyond g 2 1 1 1 (\<lambda>b. b = air)) \<and>
   (\<exists>g. getBlocksFromSchematic
          \<lparr>Width = Some 2, Height = Some 1, Length = Some 1,
           Palette = Some [(''minecraft:air'', 0), (''minecraft:stone'', 1)],
           BlockData = Some [1], Blocks = Some [1], Data = None\<rparr> = Inr g \<and>
        dense_grid g 2 1 1 \<and> padded_beyond g 2 1 1 1 (\<lambda>b. name b = ''minecraft:air''))"
  using short_flat_array_is_padded [of
      "\<lparr>Width = Some 2, Height = Some 1, Length = Some 1,
        Palette = Some [(''minecraft:air'', 0), (''minecraft:stone'', 1)],
        BlockData = Some [1], Blocks = Some [1], Data = None\<rparr>" 2 1 1
      "[(''minecraft:air'', 0), (''minecraft:stone'', 1)]" "[1]"]
  by simp

section \<open>Legacy byte normalisation\<close>

lemma and_255_eq_mod: "(k::int) AND 255 = k mod 256"
proof -
  have "(255::int) = mask 8" by (simp add: mask_eq_exp_minus_1)
  then have "k AND 255 = take_bit 8 k" by (simp add: take_bit_eq_mask)
  then show ?thesis by (simp add: take_bit_eq_mod)
qed

lemma js_rem_nonneg: "0 \<le> a \<Longrightarrow> js_rem a 256 = a mod 256"
  by (cases "a = 0") (simp_all add: js_rem_def)

lemma js_rem_neg: "a < 0 \<Longrightarrow> js_rem a 256 = - ((- a) mod 256)"
  by (simp add: js_rem_def)

lemma spec_normalize_eq_mod: "spec_normalize raw = raw mod 256"
proof (cases "0 \<le> raw")
  case True
  then have "js_rem raw 256 = raw mod 256" by (rule js_rem_nonneg)
  moreover have "0 \<le> raw mod 256 + 256" by simp
  ultimately show ?thesis
    by (simp add: spec_normalize_def js_rem_nonneg)
next
  case False
  then have r: "js_rem raw 256 = - ((- raw) mod 256)" by (simp add: js_rem_neg)
  have "(- raw) mod 256 < 256" by simp
  then have "0 \<le> - ((- raw) mod 256) + 256" by linarith
  then have "spec_normalize raw = (- ((- raw) mod 256) + 256) mod 256"
    by (simp only: spec_normalize_def r js_rem_nonneg)
  also have "\<dots> = (- ((- raw) mod 256)) mod 256" by simp
  also have "\<dots> = (- (- raw)) mod 256" by (rule mod_minus_eq)
  finally show ?thesis by simp
qed

text \<open>
  The copy of the legacy builder that normalises does so by the specification's formula,
  for every integer; a stored byte \<open>-1\<close> becomes id \<open>255\<close>.
\<close>

lemma normalizeBlockId_formula: "normalizeBlockId (Some raw) = spec_normalize raw"
  by (simp add: normalizeBlockId_def and_255_eq_mod spec_normalize_eq_mod)

lemma normalizeBlockId_range: "0 \<le> normalizeBlockId raw \<and> normalizeBlockId raw < 256"
  by (cases raw) (simp_all add: normalizeBlockId_def and_255_eq_mod)

lemma normalizeBlockId_minus_one: "normalizeBlockId (Some (- 1)) = 255"
  by (simp add: normalizeBlockId_formula spec_normalize_eq_mod)

lemma legacy_normalised_lookup_minus_one:
  "getBlocksFromSchematic
     \<lparr>Width = Some 1, Height = Some 1, Length = Some 1, Palette = None, BlockData = None,
      Blocks = Some [- 1], Data = None\<rparr> =
     Inr [[[\<lparr>name = ''minecraft:air'', properties = None\<rparr>]]]"
  by code_simp

text \<open>
  Claim C4 fails on src/webschematics.js: its legacy builder indexes the table with the
  stored byte as it is, so the byte \<open>-1\<close> is looked up as \<open>-1\<close>, finds no entry and is
  named \<^verbatim>\<open>minecraft:unknown_-1\<close>, where the normalised id \<open>255\<close> is expected.
\<close>

theorem legacy_src_lookup_without_normalisation:
  "getBlocksFromSchematic_src
     \<lparr>Width = Some 1, Height = Some 1, Length = Some 1, Palette = None, BlockData = None,
      Blocks = Some [- 1], Data = None\<rparr> =
     Inr [[[\<lparr>name = ''minecraft:unknown_-1'', properties = None\<rparr>]]]"
  by code_simp

section \<open>Palette key parsing\<close>

lemma js_indexOf_absent: "c \<notin> set s \<Longrightarrow> js_indexOf s c = - 1"
  by (induction s) auto

lemma js_indexOf_nonneg: "c \<in> set s \<Longrightarrow> 0 \<le> js_indexOf s c"
  by (induction s) (auto simp: Let_def)

lemma js_indexOf_first: "c \<notin> set n \<Longrightarrow> js_indexOf (n @ c # rest) c = int (length n)"
  by (induction n) (auto simp: Let_def)

lemma js_substring_prefix: "js_substring (n @ rest) 0 (int (length n)) = n"
  by (simp add: js_substring_def Let_def)

lemma js_substring_middle:
  "js_substring (n @ m @ rest) (int (length n)) (int (length n) + int (length m)) = m"
  by (simp add: js_substring_def Let_def)

lemma js_split_no_sep: "c \<notin> set s \<Longrightarrow> js_split s c = [s]"
  by (induction s) auto

lemma js_split_ne: "js_split s c \<noteq> []"
  by (induction s) (auto split: list.splits)

lemma js_split_append:
  "c \<notin> set p \<Longrightarrow> js_split (p @ c # rest) c = p # js_split rest c"
  by (induction p) (auto split: list.splits)

lemma js_split_join:
  "ps \<noteq> [] \<Longrightarrow> \<forall>p \<in> set ps. c \<notin> set p \<Longrightarrow> js_split (js_join ps c) c = ps"
  by (induction ps c rule: js_join.induct) (auto simp: js_split_no_sep js_split_append)

lemma getBlockData_skip:
  "\<forall>(k, v) \<in> set pre. v \<noteq> blockId \<Longrightarrow>
     getBlockData (pre @ rest) (Some blockId) = getBlockData rest (Some blockId)"
  by (induction pre) auto

lemma set_js_join: "set (js_join ps c) \<subseteq> insert c (\<Union>p \<in> set ps. set p)"
  by (induction ps c rule: js_join.induct) auto

lemma bracketed_key_parts:
  assumes n: "CHR ''['' \<notin> set n" "CHR '']'' \<notin> set n" and inner: "CHR '']'' \<notin> set inner"
  shows "js_includes (n @ ''['' @ inner @ '']'') CHR ''[''"
    and "js_substring (n @ ''['' @ inner @ '']'') 0
           (js_indexOf (n @ ''['' @ inner @ '']'') CHR ''['') = n"
    and "js_substring (n @ ''['' @ inner @ '']'')
           (js_indexOf (n @ ''['' @ inner @ '']'') CHR ''['' + 1)
           (js_indexOf (n @ ''['' @ inner @ '']'') CHR '']'') = inner"
proof -
  let ?key = "n @ CHR ''['' # inner @ '']''"
  show "js_includes (n @ ''['' @ inner @ '']'') CHR ''[''" by (simp add: js_includes_def)
  have open_at: "js_indexOf ?key CHR ''['' = int (length n)"
    using js_indexOf_first [OF n(1), of "inner @ '']''"] by simp
  have "CHR '']'' \<notin> set (n @ ''['' @ inner)" using n(2) inner by simp
  from js_indexOf_first [OF this, of "[]"]
  have close_at: "js_indexOf ?key CHR '']'' = int (length n) + 1 + int (length inner)"
    by simp
  show "js_substring (n @ ''['' @ inner @ '']'') 0
           (js_indexOf (n @ ''['' @ inner @ '']'') CHR ''['') = n"
    using js_substring_prefix [of n "''['' @ inner @ '']''"] by (simp add: open_at)
  show "js_substring (n @ ''['' @ inner @ '']'')
           (js_indexOf (n @ ''['' @ inner @ '']'') CHR ''['' + 1)
           (js_indexOf (n @ ''['' @ inner @ '']'') CHR '']'') = inner"
    using js_substring_middle [of "n @ ''[''" inner "'']''"]
    by (simp add: open_at close_at add_ac)
qed

text \<open>
  Claim C5. Let \<open>key\<close> be the first palette key whose value is the block id. If \<open>key\<close>
  is \<open>name[p1,...,pk]\<close> (the name without brackets, the properties without \<open>,\<close> and
  \<open>]\<close>), the resolver returns the part before \<open>[\<close> as the name and \<open>[p1, ..., pk]\<close>, the
  comma-split contents of the brackets, as the properties. If \<open>key\<close> has no \<open>[\<close>, it
  returns the whole key as the name and no properties, which the renderer reads as the
  empty property list.
\<close>

theorem palette_key_parsing:
  assumes palette: "palette = pre @ (key, blockId) # post"
    and first: "\<forall>(k, v) \<in> set pre. v \<noteq> blockId"
  shows "(\<forall>n ps. key = n @ ''['' @ js_join ps CHR '','' @ '']'' \<and>
            CHR ''['' \<notin> set n \<and> CHR '']'' \<notin> set n \<and> ps \<noteq> [] \<and>
            (\<forall>p \<in> set ps. CHR '','' \<notin> set p \<and> CHR '']'' \<notin> set p) \<longrightarrow>
            getBlockData palette (Some blockId) = \<lparr>name = n, properties = Some ps\<rparr>) \<and>
         (CHR ''['' \<notin> set key \<longrightarrow>
            getBlockData palette (Some blockId) = \<lparr>name = key, properties = None\<rparr> \<and>
            block_properties (getBlockData palette (Some blockId)) = [])"
proof (intro conjI allI impI)
  have skip: "getBlockData palette (Some blockId) = getBlockData ((key, blockId) # post) (Some blockId)"
    unfolding palette by (rule getBlockData_skip [OF first])
  {
    assume "CHR ''['' \<notin> set key"
    then show plain: "getBlockData palette (Some blockId) = \<lparr>name = key, properties = None\<rparr>"
      by (simp add: skip js_includes_def)
    then show "block_properties (getBlockData palette (Some blockId)) = []"
      by (simp add: block_properties_def)
  }
  fix n ps
  assume a: "key = n @ ''['' @ js_join ps CHR '','' @ '']'' \<and>
            CHR ''['' \<notin> set n \<and> CHR '']'' \<notin> set n \<and> ps \<noteq> [] \<and>
            (\<forall>p \<in> set ps. CHR '','' \<notin> set p \<and> CHR '']'' \<notin> set p)"
  let ?inner = "js_join ps CHR '',''"
  have inner: "CHR '']'' \<notin> set ?inner"
    using a set_js_join [of ps "CHR '',''"] by auto
  have split: "js_split ?inner CHR '','' = ps"
    using a by (intro js_split_join) auto
  from a have key: "key = n @ ''['' @ ?inner @ '']''" by simp
  show "getBlockData palette (Some blockId) = \<lparr>name = n, properties = Some ps\<rparr>"
    unfolding skip key using a bracketed_key_parts [OF _ _ inner, of n]
    by (simp add: split)
qed

theorem palette_key_parsing_witness:
  "getBlockData [(''minecraft:oak_stairs[facing=north,half=bottom]'', 3)] (Some 3) =
     \<lparr>name = ''minecraft:oak_stairs'', properties = Some [''facing=north'', ''half=bottom'']\<rparr> \<and>
   getBlockData [(''minecraft:air'', 0), (''minecraft:stone'', 1)] (Some 1) =
     \<lparr>name = ''minecraft:stone'', properties = None\<rparr> \<and>
   block_properties (getBlockData [(''minecraft:air'', 0), (''minecraft:stone'', 1)] (Some 1)) = []"
proof -
  have "getBlockData [(''minecraft:oak_stairs[facing=north,half=bottom]'', 3)] (Some 3) =
     \<lparr>name = ''minecraft:oak_stairs'', properties = Some [''facing=north'', ''half=bottom'']\<rparr>"
    by (rule palette_key_parsing [where pre = "[]" and post = "[]", THEN conjunct1, rule_format,
          where n = "''minecraft:oak_stairs''" and ps = "[''facing=north'', ''half=bottom'']"])
      simp_all
  moreover have "getBlockData [(''minecraft:air'', 0), (''minecraft:stone'', 1)] (Some 1) =
     \<lparr>name = ''minecraft:stone'', properties = None\<rparr> \<and>
   block_properties (getBlockData [(''minecraft:air'', 0), (''minecraft:stone'', 1)] (Some 1)) = []"
    by (rule palette_key_parsing [where pre = "[(''minecraft:air'', 0)]" and post = "[]",
          THEN conjunct2, rule_format]) simp_all
  ultimately show ?thesis by (rule conjI)
qed

section \<open>Palette ids without an entry\<close>

lemma blockGrid_not_air:
  "((x, y, z), b) \<in> set (blockGrid blocks) \<Longrightarrow>
     y < length blocks \<and> x < length (blocks ! y) \<and> z < length (blocks ! y ! x) \<and>
     b = blocks ! y ! x ! z \<and> name b \<noteq> ''minecraft:air''"
  by (auto simp: blockGrid_def Let_def split: if_splits)

text \<open>
  Claim C6. For every palette and every numeric id that equals no entry's value, the
  palette resolver returns the air descriptor (it has no failing branch), the grid
  holds the air descriptor at every position that reads such an id, and the renderer's
  collecting loop skips that position, so nothing is drawn there.
\<close>

theorem unmatched_id_is_air:
  assumes unmatched: "\<forall>(key, v) \<in> set palette. v \<noteq> blockId"
  shows "getBlockData palette (Some blockId) = air \<and>
         (\<forall>(t::nbt) w h l flat x y z.
            Width t = Some w \<and> Height t = Some h \<and> Length t = Some l \<and>
            Palette t = Some palette \<and> BlockData t = Some flat \<and>
            x < nat w \<and> y < nat h \<and> z < nat l \<and>
            js_index flat (int (linearIndex (nat w) (nat l) x y z)) = Some blockId \<longrightarrow>
            (\<exists>g. getBlocksFromSchem t = Inr g \<and> g ! y ! x ! z = air \<and>
                 (x, y, z) \<notin> fst ` set (blockGrid g)))"
proof (intro conjI allI impI)
  show res: "getBlockData palette (Some blockId) = air"
    using unmatched by (intro getBlockData_unmatched) auto
  fix t :: nbt and w h l flat x y z
  assume a: "Width t = Some w \<and> Height t = Some h \<and> Length t = Some l \<and>
            Palette t = Some palette \<and> BlockData t = Some flat \<and>
            x < nat w \<and> y < nat h \<and> z < nat l \<and>
            js_index flat (int (linearIndex (nat w) (nat l) x y z)) = Some blockId"
  let ?g = "voxelLoop (\<lambda>i. getBlockData palette (js_index flat i)) w h l"
  have g: "getBlocksFromSchem t = Inr ?g"
    using a by (simp add: getBlocksFromSchem_def)
  have cell: "?g ! y ! x ! z = air"
    using a res by (simp add: voxelLoop_nth)
  have "(x, y, z) \<notin> fst ` set (blockGrid ?g)"
  proof
    assume "(x, y, z) \<in> fst ` set (blockGrid ?g)"
    then obtain b where "((x, y, z), b) \<in> set (blockGrid ?g)" by auto
    from blockGrid_not_air [OF this] cell show False by (auto simp: air_def)
  qed
  with g cell show "\<exists>g. getBlocksFromSchem t = Inr g \<and> g ! y ! x ! z = air \<and>
                 (x, y, z) \<notin> fst ` set (blockGrid g)"
    by blast
qed

theorem unmatched_id_is_air_witness:
  "getBlockData [(''minecraft:stone'', 1)] (Some 7) = air \<and>
   (\<exists>g. getBlocksFromSchem
          \<lparr>Width = Some 1, Height = Some 1, Length = Some 1,
           Palette = Some [(''minecraft:stone'', 1)], BlockData = Some [7],
           Blocks = None, Data = None\<rparr> = Inr g \<and>
        g ! 0 ! 0 ! 0 = air \<and> (0, 0, 0) \<notin> fst ` set (blockGrid g))"
proof -
  have "\<forall>(key, v) \<in> set [(''minecraft:stone'', 1::int)]. v \<noteq> 7" by simp
  note th = unmatched_id_is_air [OF this]
  have "\<exists>g. getBlocksFromSchem
          \<lparr>Width = Some 1, Height = Some 1, Length = Some 1,
           Palette = Some [(''minecraft:stone'', 1)], BlockData = Some [7],
           Blocks = None, Data = None\<rparr> = Inr g \<and>
        g ! 0 ! 0 ! 0 = air \<and> (0, 0, 0) \<notin> fst ` set (blockGrid g)"
    by (rule th [THEN conjunct2, rule_format, of _ 1 1 1 "[7]" 0 0 0])
      (simp add: js_index_def linearIndex_def)
  with th show ?thesis by simp
qed

section \<open>Transformations from block properties\<close>

text \<open>
  Claim C7, as it is stated, fails: \<open>half=top\<close> sets the rotation about the \<open>x\<close> axis to
  \<open>pi\<close> and leaves the vertical (\<open>y\<close>) axis alone, so the vertical-axis rotation of
  \<open>["half=top"]\<close> is \<open>0\<close>, not \<open>pi\<close>, and that of \<open>["facing=north", "half=top"]\<close> is \<open>-pi/2\<close>,
  not \<open>-pi/2\<close> plus a half turn.
\<close>

theorem half_top_counterexample:
  "rotation (applyTransformations (Mesh None ()) 0 0 0 (Some [''half=top''])) = (pi, 0, 0) \<and>
   rotation (applyTransformations (Mesh None ()) 0 0 0 (Some [''facing=north'', ''half=top''])) =
     (pi, - pi / 2, 0) \<and>
   fst (snd (rotation (applyTransformations (Mesh None ()) 0 0 0 (Some [''half=top''])))) \<noteq> pi \<and>
   fst (snd (rotation (applyTransformations (Mesh None ()) 0 0 0
       (Some [''facing=north'', ''half=top''])))) \<noteq> - pi / 2 + pi"
proof -
  have 1: "rotation (applyTransformations (Mesh None ()) 0 0 0 (Some [''half=top''])) = (pi, 0, 0)"
    by (simp add: applyTransformations_def Mesh_def js_startsWith_def Let_def)
  have 2: "rotation (applyTransformations (Mesh None ()) 0 0 0
       (Some [''facing=north'', ''half=top''])) = (pi, - pi / 2, 0)"
    by (simp add: applyTransformations_def Mesh_def js_startsWith_def Let_def)
  have "(0::real) \<noteq> pi" using pi_gt_zero by simp
  moreover have "- pi / 2 \<noteq> - pi / 2 + pi" using pi_gt_zero by simp
  ultimately show ?thesis by (simp only: 1 2 fst_conv snd_conv) simp
qed

text \<open>
  Claim C7, amended. On a mesh that is not yet rotated and for properties without an
  \<open>axis\<close> entry, \<open>half=top\<close> turns the block by \<open>pi\<close> about the \<open>x\<close> axis, and \<open>facing\<close> alone
  turns it about the vertical axis, by \<open>pi/2\<close> for north, \<open>0\<close> for east, \<open>-pi/2\<close> for south
  and \<open>pi\<close> for west, with the sign flipped when \<open>half=top\<close> is present; the properties
  \<open>["facing=north", "half=top"]\<close> give the Euler angles \<open>(pi, -pi/2, 0)\<close>.
\<close>

theorem half_top_flips_about_x:
  assumes fresh: "rotation m = (0, 0, 0)"
    and no_axis: "find (\<lambda>p. js_startsWith p ''axis='') props = None"
  shows "rotation (applyTransformations m x y z (Some props)) =
           (if upsideDown props then pi else 0, verticalRotation props, 0)"
proof (cases "props = []")
  case True
  then show ?thesis
    by (simp add: applyTransformations_def fresh upsideDown_def verticalRotation_def)
next
  case False
  show ?thesis
  proof (cases "find (\<lambda>p. js_startsWith p ''facing='') props")
    case None
    then show ?thesis using False
      by (simp add: applyTransformations_def Let_def fresh no_axis upsideDown_def
          verticalRotation_def split: option.splits)
  next
    case (Some f)
    then show ?thesis using False
      by (simp add: applyTransformations_def Let_def fresh no_axis upsideDown_def
          verticalRotation_def facingAngle_def split: option.splits)
  qed
qed

theorem half_top_flips_about_x_witness:
  "rotation (applyTransformations (Mesh None ()) 3 4 5 (Some [''facing=north'', ''half=top''])) =
     (pi, - pi / 2, 0)"
proof -
  have "rotation (Mesh None ()) = (0, 0, 0)" by (simp add: Mesh_def)
  moreover have "find (\<lambda>p. js_startsWith p ''axis='') [''facing=north'', ''half=top''] = None"
    by (simp add: js_startsWith_def)
  ultimately have "rotation (applyTransformations (Mesh None ()) 3 4 5
      (Some [''facing=north'', ''half=top''])) =
      (if upsideDown [''facing=north'', ''half=top''] then pi else 0,
       verticalRotation [''facing=north'', ''half=top''], 0)"
    by (rule half_top_flips_about_x)
  then show ?thesis
    by (simp add: upsideDown_def verticalRotation_def facingAngle_def js_startsWith_def)
qed

section \<open>Merging two geometries\<close>

lemma items_simps: "items None = []" "items (Some a) = a"
  by (simp_all add: items_def)

lemma pushItems_eq: "pushItems acc attr = acc @ items attr"
  by (cases attr) (simp_all add: pushItems_def items_def map_nth)

lemma offset_eq: "(case attr_position g of Some p \<Rightarrow> length p | None \<Rightarrow> 0) = vertexCount g"
  by (simp add: vertexCount_def items_def split: option.splits)

lemma items_if: "items (if 0 < length xs then Some xs else None) = xs"
  by (simp add: items_def)

lemma mergeTwoGeometries_attributes:
  "\<exists>m. mergeTwoGeometries (Some g1) (Some g2) = Some m \<and>
       attr_position m = Some (items (attr_position g1) @ items (attr_position g2)) \<and>
       items (attr_normal m) = items (attr_normal g1) @ items (attr_normal g2) \<and>
       items (attr_uv m) = items (attr_uv g1) @ items (attr_uv g2) \<and>
       index m =
         (case (index g1, index g2) of
            (Some index1, Some index2) \<Rightarrow> Some (index1 @ map (\<lambda>i. i + vertexCount g1) index2)
          | (Some index1, None) \<Rightarrow> Some index1
          | (None, Some index2) \<Rightarrow> Some (map (\<lambda>i. i + vertexCount g1) index2)
          | (None, None) \<Rightarrow> None)"
proof -
  have shift: "map (\<lambda>i. xs ! i + k) [0..<length xs] = map (\<lambda>i. i + k) xs" for xs :: "nat list" and k
    by (rule nth_equalityI) simp_all
  show ?thesis
    by (simp add: mergeTwoGeometries_def Let_def pushItems_eq offset_eq items_if map_nth shift
        items_simps del: length_greater_0_conv split: option.splits)
qed

text \<open>What the \<^verbatim>\<open>catch\<close> of \<^verbatim>\<open>mergeTwoGeometries\<close> returns: the first argument alone.\<close>

lemma mergeTwoGeometries_catch: "mergeTwoGeometries geo1 None = geo1"
  by (simp add: mergeTwoGeometries_def split: option.splits)

text \<open>
  Claim C8. Merging two indexed geometries concatenates their position, normal and uv
  items and appends to the first geometry's indices the second geometry's indices,
  each raised by the first geometry's vertex count; two single triangles with indices
  \<open>[0, 1, 2]\<close> give six vertices and the indices \<open>[0, 1, 2, 3, 4, 5]\<close>.
\<close>

theorem merge_indexed_geometries:
  assumes "index g1 = Some index1" and "index g2 = Some index2"
  shows "\<exists>m. mergeTwoGeometries (Some g1) (Some g2) = Some m \<and>
           attr_position m = Some (items (attr_position g1) @ items (attr_position g2)) \<and>
           items (attr_normal m) = items (attr_normal g1) @ items (attr_normal g2) \<and>
           items (attr_uv m) = items (attr_uv g1) @ items (attr_uv g2) \<and>
           vertexCount m = vertexCount g1 + vertexCount g2 \<and>
           index m = Some (index1 @ map (\<lambda>i. i + vertexCount g1) index2)"
  using mergeTwoGeometries_attributes [of g1 g2] assms
  by (auto simp: vertexCount_def items_def)

theorem merge_indexed_geometries_witness:
  "\<exists>m. mergeTwoGeometries (Some triangle) (Some triangle) = Some m \<and>
       vertexCount m = 6 \<and> index m = Some [0, 1, 2, 3, 4, 5]"
  using merge_indexed_geometries [of triangle "[0, 1, 2]" triangle "[0, 1, 2]"]
  by (auto simp: triangle_def vertexCount_def items_def)

text \<open>
  Claim C10. When exactly one of the two geometries has an index, the merged index
  holds that geometry's indices only: unchanged when it is the first geometry, raised
  by the first geometry's vertex count when it is the second. The vertices of the other
  geometry are in the merged position buffer, and no index entry refers to them (for the
  first case, given that the first geometry's indices are below its vertex count).
\<close>

theorem merge_one_indexed_geometry:
  "(index g1 = Some index1 \<and> index g2 = None \<and> (\<forall>i \<in> set index1. i < vertexCount g1) \<longrightarrow>
      (\<exists>m. mergeTwoGeometries (Some g1) (Some g2) = Some m \<and>
           attr_position m = Some (items (attr_position g1) @ items (attr_position g2)) \<and>
           index m = Some index1 \<and>
           (\<forall>j < vertexCount g2.
              items (attr_position m) ! (vertexCount g1 + j) = items (attr_position g2) ! j \<and>
              vertexCount g1 + j \<notin> set (items (index m))))) \<and>
   (index g1 = None \<and> index g2 = Some index2 \<longrightarrow>
      (\<exists>m. mergeTwoGeometries (Some g1) (Some g2) = Some m \<and>
           attr_position m = Some (items (attr_position g1) @ items (attr_position g2)) \<and>
           index m = Some (map (\<lambda>i. i + vertexCount g1) index2) \<and>
           (\<forall>j < vertexCount g1.
              items (attr_position m) ! j = items (attr_position g1) ! j \<and>
              j \<notin> set (items (index m)))))"
  using mergeTwoGeometries_attributes [of g1 g2]
  by (auto simp: vertexCount_def items_def nth_append)

theorem merge_one_indexed_geometry_witness:
  "(\<exists>m. mergeTwoGeometries (Some triangle) (Some plainTriangle) = Some m \<and>
        index m = Some [0, 1, 2] \<and> vertexCount m = 6 \<and>
        (\<forall>j < 3. 3 + j \<notin> set (items (index m)))) \<and>
   (\<exists>m. mergeTwoGeometries (Some plainTriangle) (Some triangle) = Some m \<and>
        index m = Some [3, 4, 5] \<and> vertexCount m = 6 \<and>
        (\<forall>j < 3. j \<notin> set (items (index m))))"
  using merge_one_indexed_geometry [of triangle "[0, 1, 2]" plainTriangle]
    merge_one_indexed_geometry [of plainTriangle _ triangle "[0, 1, 2]"]
  by (auto simp: triangle_def plainTriangle_def vertexCount_def items_def)

section \<open>Merging the meshes of a group\<close>

lemma translateMesh_throws:
  "translateMesh f m = Inl e \<longleftrightarrow> geometry m = None \<and> e = TypeError"
  by (auto simp: translateMesh_def split: option.splits prod.splits)














end
